theory Spec2Isabelle
  imports Complex_Main "HOL-Library.Sublist" "HOL-Library.Log_Nat"
    "HOL-Library.Code_Target_Numeral"
begin

section \<open>JavaScript values used by the chat client\<close>

text \<open>
  A JavaScript number is a binary64 floating point number. A finite one is modelled by the
  rational that is its value, and the order on numbers is the order of these values.
  A decimal literal of the program and a number of a JSON body denote the binary64 number
  nearest to the decimal (\<open>binary64\<close>, ties to the even significand), and a product is
  the exact product rounded in the same way. \<open>exponent x\<close> is the integer part of the
  binary logarithm of a positive \<open>x\<close>; below \<open>2^-1022\<close> the numbers are spaced
  \<open>2^-1074\<close> apart. Infinities and NaN are not modelled: a result of \<open>2^1024\<close> or
  more stands for a number the program does not have.
\<close>

definition round_half_even :: "rat \<Rightarrow> int" where
  "round_half_even q =
     (let n = \<lfloor>q\<rfloor>; r = q - of_int n
      in if r < 1 / 2 then n else if 1 / 2 < r then n + 1 else if even n then n else n + 1)"

definition exponent :: "rat \<Rightarrow> int" where
  "exponent x =
     (if 1 \<le> x then int (floorlog 2 (nat \<lfloor>x\<rfloor>)) - 1
      else - int (floorlog 2 (nat \<lceil>1 / x\<rceil> - 1)))"

definition binary64 :: "rat \<Rightarrow> rat" where
  "binary64 x =
     (if x = 0 then 0
      else let e = max (exponent \<bar>x\<bar>) (- 1022);
               u = 2 powi (e - 52)
           in of_int (round_half_even (x / u)) * u)"

text \<open>
  A field that may be missing is \<open>NumUndefined\<close>: every relational comparison of
  \<^verbatim>\<open>undefined\<close> with a number is false in JavaScript.
\<close>

datatype jsnum = NumUndefined | Num rat

definition js_ge :: "jsnum \<Rightarrow> rat \<Rightarrow> bool" where
  "js_ge v t = (case v of NumUndefined \<Rightarrow> False | Num x \<Rightarrow> t \<le> x)"

text \<open>
  Strings are lists of 8-bit characters. \<^verbatim>\<open>String.prototype.trim\<close> removes white space and
  line terminators from both ends; in the 8-bit range these are TAB, LF, VT, FF, CR, SP and
  NBSP.
\<close>

definition is_js_space :: "char \<Rightarrow> bool" where
  "is_js_space c \<longleftrightarrow>
     c \<in> set [CHR 0x09, CHR 0x0A, CHR 0x0B, CHR 0x0C, CHR 0x0D, CHR 0x20, CHR 0xA0]"

definition trim :: "string \<Rightarrow> string" where
  "trim s = rev (dropWhile is_js_space (rev (dropWhile is_js_space s)))"

text \<open>The settled value of an awaited promise: rejected, or fulfilled with a value.\<close>

datatype 'a outcome = Rejected | Fulfilled 'a

text \<open>Notifications raised through \<^verbatim>\<open>react-hot-toast\<close>, kept in emission order.\<close>

datatype toast = ToastError string | ToastSuccess string

section \<open>services/api.js: queryService.queryDocuments\<close>

text \<open>
  The third argument of \<^verbatim>\<open>queryDocuments(query, conversationHistory = [], documentId = null)\<close>
  may be \<^verbatim>\<open>null\<close>, \<^verbatim>\<open>undefined\<close> or a string. The request body is an object whose
  \<^verbatim>\<open>document_id\<close> key is either present with a string or not present at all.
\<close>

datatype docarg = DocNull | DocUndefined | DocId string

record turn =
  role :: string
  content_turn :: "string option"

record request =
  query :: string
  conversation_history :: "turn list"
  document_id_req :: "string option"

definition truthy_doc :: "docarg \<Rightarrow> bool" where
  "truthy_doc a = (case a of DocId s \<Rightarrow> s \<noteq> [] | _ \<Rightarrow> False)"

definition queryDocuments :: "string \<Rightarrow> turn list \<Rightarrow> docarg \<Rightarrow> request" where
  "queryDocuments q conversationHistory arg =
     (let documentId = (if arg = DocUndefined then DocNull else arg);
          requestData = \<lparr>query = q, conversation_history = conversationHistory,
                         document_id_req = None\<rparr>
      in if truthy_doc documentId
         then (case documentId of DocId s \<Rightarrow> requestData\<lparr>document_id_req := Some s\<rparr>
                                | _ \<Rightarrow> requestData)
         else requestData)"

section \<open>components/Chat.js: state\<close>

record source =
  filename :: string
  similarity_score :: rat

text \<open>
  A chat message. A user message has no \<^verbatim>\<open>sources\<close> and no \<^verbatim>\<open>confidence\<close> key
  (\<open>None\<close>, \<open>NumUndefined\<close>). The \<^verbatim>\<open>content\<close> of a bot message is whatever the
  reply had as its \<^verbatim>\<open>answer\<close>, so it is \<^verbatim>\<open>undefined\<close> (\<open>None\<close>) when the reply had
  none. The \<^verbatim>\<open>id\<close> is a reading of \<^verbatim>\<open>Date.now()\<close>, the \<^verbatim>\<open>timestamp\<close> a reading
  of \<^verbatim>\<open>new Date()\<close> (kept as its millisecond value).
\<close>

record message =
  id_msg :: int
  type_msg :: string
  content :: "string option"
  sources :: "source list option"
  confidence :: jsnum
  timestamp :: int

text \<open>
  The value of a fulfilled query, read through the three properties the handler looks at.
  Each of them may be missing: all three are on an empty object, a string or a number.
  An \<^verbatim>\<open>answer\<close> that is present is a string.
\<close>

record response =
  answer :: "string option"
  sources_resp :: "source list option"
  confidence_resp :: jsnum

record doc =
  document_id :: string
  filename_doc :: string

text \<open>
  The \<^verbatim>\<open>useState\<close> cells of the component that the handlers read or write, and the
  notifications emitted so far.
\<close>

record chat =
  messages :: "message list"
  input :: string
  loading :: bool
  selectedDocument :: string
  documents :: "doc list"
  toasts :: "toast list"

definition chat_init :: chat where
  "chat_init = \<lparr>messages = [], input = [], loading = False, selectedDocument = [],
                 documents = [], toasts = []\<rparr>"

section \<open>components/Chat.js: loadDocuments and the scope dropdown\<close>

text \<open>
  \<^verbatim>\<open>loadDocuments\<close> after its \<^verbatim>\<open>await\<close>: a fulfilled fetch carries
  \<^verbatim>\<open>response.documents\<close> (\<open>None\<close> when the key is missing, replaced by the empty list);
  a rejected one is only logged.
\<close>

definition loadDocuments :: "doc list option outcome \<Rightarrow> chat \<Rightarrow> chat" where
  "loadDocuments r st =
     (case r of
        Fulfilled ds \<Rightarrow> st\<lparr>documents := (case ds of Some l \<Rightarrow> l | None \<Rightarrow> [])\<rparr>
      | Rejected \<Rightarrow> st)"

text \<open>
  The dropdown: one button "All documents" and one button per entry of \<^verbatim>\<open>documents\<close>;
  a click on an entry that is not rendered cannot happen.
\<close>

definition select_all :: "chat \<Rightarrow> chat" where
  "select_all st = st\<lparr>selectedDocument := []\<rparr>"

definition select_document :: "nat \<Rightarrow> chat \<Rightarrow> chat" where
  "select_document i st =
     (if i < length (documents st)
      then st\<lparr>selectedDocument := document_id (documents st ! i)\<rparr>
      else st)"

definition scope_ok :: "chat \<Rightarrow> bool" where
  "scope_ok st \<longleftrightarrow>
     selectedDocument st = [] \<or> selectedDocument st \<in> set (map document_id (documents st))"

section \<open>components/Chat.js: handleSubmit\<close>

text \<open>
  \<^verbatim>\<open>handleSubmit\<close> up to its \<^verbatim>\<open>await\<close>. \<open>None\<close> is the early return. Otherwise the
  result is the state after the three setters and the request body handed to
  \<^verbatim>\<open>api.post\<close>. \<open>now\<close> is the reading of \<^verbatim>\<open>Date.now()\<close>, \<open>ts\<close> that of
  \<^verbatim>\<open>new Date()\<close>. \<^verbatim>\<open>messages\<close> inside the handler is the value of the render that
  created it, that is the log of \<open>st\<close>.
\<close>

definition handleSubmit :: "int \<Rightarrow> int \<Rightarrow> chat \<Rightarrow> (chat \<times> request) option" where
  "handleSubmit now ts st =
     (if trim (input st) = [] \<or> loading st then None
      else
        let userMessage = \<lparr>id_msg = now, type_msg = ''user'', content = Some (trim (input st)),
                            sources = None, confidence = NumUndefined, timestamp = ts\<rparr>;
            conversationHistory =
              map (\<lambda>msg. \<lparr>role = (if type_msg msg = ''user'' then ''user'' else ''assistant''),
                           content_turn = content msg\<rparr>) (messages st)
        in Some (st\<lparr>messages := messages st @ [userMessage], input := [], loading := True\<rparr>,
                 queryDocuments (trim (input st)) conversationHistory
                   (if selectedDocument st \<noteq> [] then DocId (selectedDocument st)
                    else DocUndefined)))"

text \<open>
  \<^verbatim>\<open>handleSubmit\<close> from the \<^verbatim>\<open>await\<close> on. The promise is rejected on a network error
  and on a status outside 2xx. When it is fulfilled, the awaited value is the body of the
  reply: on \<^verbatim>\<open>null\<close> or \<^verbatim>\<open>undefined\<close> (\<open>None\<close>) the read of \<^verbatim>\<open>response.answer\<close>
  throws, and the \<^verbatim>\<open>catch\<close> branch runs as for a rejection; on every other value
  nothing throws and the \<^verbatim>\<open>try\<close> branch builds the bot message from whatever the three
  properties hold. \<^verbatim>\<open>finally\<close> clears \<^verbatim>\<open>loading\<close> in each case. The setters use the
  functional form, so they append to the log of the current state.
\<close>

definition handleSubmit_settled ::
  "int \<Rightarrow> int \<Rightarrow> response option outcome \<Rightarrow> chat \<Rightarrow> chat" where
  "handleSubmit_settled now ts r st =
     (let errorMessage = \<lparr>id_msg = now + 1, type_msg = ''bot'',
            content = Some ''I apologize, but I encountered an error while processing your request. Please try again.'',
            sources = Some [], confidence = Num 0, timestamp = ts\<rparr>;
          caught = st\<lparr>toasts := toasts st @
                      [ToastError ''Failed to get response. Please try again.''],
                    messages := messages st @ [errorMessage], loading := False\<rparr>
      in case r of
           Fulfilled (Some response) \<Rightarrow>
             let botMessage = \<lparr>id_msg = now + 1, type_msg = ''bot'', content = answer response,
                   sources = Some (case sources_resp response of Some l \<Rightarrow> l | None \<Rightarrow> []),
                   confidence = confidence_resp response, timestamp = ts\<rparr>
             in st\<lparr>messages := messages st @ [botMessage], loading := False\<rparr>
         | Fulfilled None \<Rightarrow> caught
         | Rejected \<Rightarrow> caught)"

text \<open>
  One exchange: the user types a question (the input field is disabled while
  \<^verbatim>\<open>loading\<close>), submits it, and the query settles. The clock is read once at the
  submission and once when the query settles.
\<close>

record exchange =
  question :: string
  submitted_now :: int
  submitted_ts :: int
  settled :: "response option outcome"
  settled_now :: int
  settled_ts :: int

definition submit_exchange :: "chat \<Rightarrow> exchange \<Rightarrow> chat" where
  "submit_exchange st x =
     (let typed = (if loading st then st else st\<lparr>input := question x\<rparr>)
      in case handleSubmit (submitted_now x) (submitted_ts x) typed of
           None \<Rightarrow> typed
         | Some (st', req) \<Rightarrow>
             handleSubmit_settled (settled_now x) (settled_ts x) (settled x) st')"

definition run_exchanges :: "chat \<Rightarrow> exchange list \<Rightarrow> chat" where
  "run_exchanges st xs = foldl submit_exchange st xs"

text \<open>
  The readings of the clock under which ids grow: every submission reads a value above
  \<open>t\<close> (the largest id so far), and the reading when the query settles is not below the
  reading at the submission.
\<close>

fun clock_advances :: "int \<Rightarrow> exchange list \<Rightarrow> bool" where
  "clock_advances t [] = True"
| "clock_advances t (x # xs) =
     (t < submitted_now x \<and> submitted_now x \<le> settled_now x \<and>
      clock_advances (settled_now x + 1) xs)"

section \<open>components/Chat.js: rendering of a bot message\<close>

text \<open>The two thresholds are the binary64 numbers that the literals 0.8 and 0.6 denote.\<close>

definition getConfidenceText :: "jsnum \<Rightarrow> string" where
  "getConfidenceText c =
     (if js_ge c (binary64 0.8) then ''High''
      else if js_ge c (binary64 0.6) then ''Medium''
      else ''Low'')"

text \<open>
  The badge is rendered only under
  \<^verbatim>\<open>message.type === 'bot' && message.confidence !== undefined\<close>; \<open>None\<close> is no badge.
\<close>

definition confidence_badge :: "message \<Rightarrow> string option" where
  "confidence_badge m =
     (if type_msg m = ''bot'' \<and> confidence m \<noteq> NumUndefined
      then Some (getConfidenceText (confidence m)) else None)"

text \<open>
  The text of one entry of the source list:
  \<^verbatim>\<open>{source.filename} (similarity: {(source.similarity_score * 100).toFixed(1)}%)\<close>.
  \<^verbatim>\<open>Number.prototype.toFixed\<close> follows ECMAScript: the sign is split off, \<open>n\<close> is the
  integer for which \<open>n / 10^f\<close> is nearest to the value (the larger one on a tie), and its
  decimal digits are padded with zeros to \<open>f + 1\<close> places before the point is inserted.
  A value of \<open>10^21\<close> or more is printed by \<^verbatim>\<open>Number::toString\<close> in exponent notation,
  which is not modelled: the result is \<open>None\<close> there. The argument is the binary64
  product of the score and 100.
\<close>

fun digits :: "nat \<Rightarrow> string" where
  "digits n =
     (if n < 10 then [''0123456789'' ! n]
      else digits (n div 10) @ [''0123456789'' ! (n mod 10)])"

declare digits.simps [simp del]

definition toFixed :: "nat \<Rightarrow> rat \<Rightarrow> string option" where
  "toFixed f x =
     (let s = (if x < 0 then ''-'' else []);
          x = (if x < 0 then - x else x)
      in if 10 ^ 21 \<le> x then None
         else
           let n = nat \<lfloor>x * 10 ^ f + 1 / 2\<rfloor>;
               m = digits n;
               m = (if f \<noteq> 0
                    then let k = length m;
                             m = (if k \<le> f then replicate (f + 1 - k) (CHR ''0'') @ m else m);
                             k = (if k \<le> f then f + 1 else k)
                         in take (k - f) m @ ''.'' @ drop (k - f) m
                    else m)
           in Some (s @ m))"

definition formatSource :: "source \<Rightarrow> string option" where
  "formatSource s =
     map_option (\<lambda>pct. filename s @ '' (similarity: '' @ pct @ ''%)'')
       (toFixed 1 (binary64 (similarity_score s * 100)))"

section \<open>components/DocumentSummaryModal.js\<close>

text \<open>
  The props \<^verbatim>\<open>document\<close> and \<^verbatim>\<open>isOpen\<close>, the three \<^verbatim>\<open>useState\<close> cells, the
  \<^verbatim>\<open>summarizeDocument\<close> calls that were issued and have not settled yet (by document id,
  oldest first), and the notifications emitted so far. \<open>'p\<close> is the summary payload,
  which the component stores and renders without inspecting it in any handler.
\<close>

record 'p modal =
  document :: "doc option"
  isOpen :: bool
  loading_summary :: bool
  summaryData :: "'p option"
  error :: "string option"
  inflight :: "string list"
  toasts_summary :: "toast list"

definition modal_init :: "'p modal" where
  "modal_init = \<lparr>document = None, isOpen = False, loading_summary = False,
                  summaryData = None, error = None, inflight = [], toasts_summary = []\<rparr>"

definition truthy_str :: "string option \<Rightarrow> bool" where
  "truthy_str e = (case e of None \<Rightarrow> False | Some s \<Rightarrow> s \<noteq> [])"

text \<open>\<^verbatim>\<open>generateSummary\<close> up to its \<^verbatim>\<open>await\<close>: there is no test of \<^verbatim>\<open>loading\<close>.\<close>

definition generateSummary :: "'p modal \<Rightarrow> 'p modal" where
  "generateSummary st =
     (case document st of
        None \<Rightarrow> st
      | Some d \<Rightarrow> st\<lparr>loading_summary := True, error := None,
                     inflight := inflight st @ [document_id d]\<rparr>)"

text \<open>
  \<^verbatim>\<open>generateSummary\<close> from the \<^verbatim>\<open>await\<close> on, for the oldest call in flight: the value of
  a fulfilled call is \<^verbatim>\<open>response.summary\<close> (\<open>None\<close> when the key is missing). Nothing here
  looks at \<^verbatim>\<open>isOpen\<close>, at \<^verbatim>\<open>document\<close> or at the call that settled.
\<close>

definition generateSummary_settled :: "'p option outcome \<Rightarrow> 'p modal \<Rightarrow> 'p modal" where
  "generateSummary_settled r st =
     (case inflight st of
        [] \<Rightarrow> st
      | _ # rest \<Rightarrow>
          (case r of
             Fulfilled summary \<Rightarrow>
               st\<lparr>summaryData := summary,
                   toasts_summary := toasts_summary st @
                     [ToastSuccess ''Document summary generated successfully!''],
                   loading_summary := False, inflight := rest\<rparr>
           | Rejected \<Rightarrow>
               st\<lparr>error := Some ''Failed to generate document summary. Please try again.'',
                   toasts_summary := toasts_summary st @
                     [ToastError ''Failed to generate document summary''],
                   loading_summary := False, inflight := rest\<rparr>))"

text \<open>
  The parent opens the modal on a document: both props change, and the effect with
  dependencies \<^verbatim>\<open>[isOpen, document]\<close> runs; the effect with dependency \<^verbatim>\<open>[isOpen]\<close> does
  nothing while \<^verbatim>\<open>isOpen\<close> holds.
\<close>

definition open_modal :: "doc \<Rightarrow> 'p modal \<Rightarrow> 'p modal" where
  "open_modal d st =
     (if isOpen st \<and> document st = Some d then st
      else
        let st' = st\<lparr>document := Some d, isOpen := True\<rparr>
        in if isOpen st' \<and> document st' \<noteq> None \<and> summaryData st' = None \<and> \<not> loading_summary st'
           then generateSummary st' else st')"

text \<open>
  \<^verbatim>\<open>onClose\<close>, reachable from the two close buttons, which are rendered only while the
  modal is open on a document: the parent clears both props, and the effect with
  dependency \<^verbatim>\<open>[isOpen]\<close> resets the three cells. No call in flight is touched.
\<close>

definition close_modal :: "'p modal \<Rightarrow> 'p modal" where
  "close_modal st =
     (if \<not> isOpen st \<or> document st = None then st
      else st\<lparr>document := None, isOpen := False, summaryData := None, error := None,
               loading_summary := False\<rparr>)"

text \<open>
  The three buttons with \<^verbatim>\<open>onClick={generateSummary}\<close>, each with the condition under
  which it is rendered and enabled: the content is
  \<^verbatim>\<open>loading ? spinner : error ? "Try Again" : !summaryData ? "Generate Summary" : summary\<close>,
  and the footer shows "Regenerate" when \<^verbatim>\<open>summaryData\<close> is set, disabled while loading.
\<close>

definition rendered :: "'p modal \<Rightarrow> bool" where
  "rendered st \<longleftrightarrow> isOpen st \<and> document st \<noteq> None"

definition click_try_again :: "'p modal \<Rightarrow> 'p modal" where
  "click_try_again st =
     (if rendered st \<and> \<not> loading_summary st \<and> truthy_str (error st)
      then generateSummary st else st)"

definition click_generate :: "'p modal \<Rightarrow> 'p modal" where
  "click_generate st =
     (if rendered st \<and> \<not> loading_summary st \<and> \<not> truthy_str (error st) \<and> summaryData st = None
      then generateSummary st else st)"

definition click_regenerate :: "'p modal \<Rightarrow> 'p modal" where
  "click_regenerate st =
     (if rendered st \<and> summaryData st \<noteq> None \<and> \<not> loading_summary st
      then generateSummary st else st)"

text \<open>The four views of the content area, in the order of the conditional that renders them.\<close>

datatype 'p summary_view = Loading | Failed string | Absent | Ready 'p

definition summary_state :: "'p modal \<Rightarrow> 'p summary_view" where
  "summary_state st =
     (if loading_summary st then Loading
      else if truthy_str (error st) then Failed (the (error st))
      else (case summaryData st of None \<Rightarrow> Absent | Some p \<Rightarrow> Ready p))"

text \<open>The ways the component offers to request a summary.\<close>

datatype trigger = Reopen doc | TryAgain | Generate | Regenerate

fun requestSummary :: "'p modal \<Rightarrow> trigger \<Rightarrow> 'p modal" where
  "requestSummary st (Reopen d) = open_modal d st"
| "requestSummary st TryAgain = click_try_again st"
| "requestSummary st Generate = click_generate st"
| "requestSummary st Regenerate = click_regenerate st"

section \<open>Auxiliary facts\<close>

lemma round_half_even_bounds:
  "0 \<le> q \<Longrightarrow> 0 \<le> round_half_even q" "of_int (round_half_even q) \<le> q + 1"
proof -
  have "round_half_even q \<le> \<lfloor>q\<rfloor> + 1"
    by (simp add: round_half_even_def Let_def)
  then have "(of_int (round_half_even q) :: rat) \<le> of_int (\<lfloor>q\<rfloor> + 1)"
    by (simp only: of_int_le_iff)
  then show "of_int (round_half_even q) \<le> q + 1"
    using of_int_floor_le [of q] by linarith
  show "0 \<le> round_half_even q" if "0 \<le> q"
    using that by (auto simp: round_half_even_def Let_def)
qed

lemma exponent_le_6:
  assumes "0 < x" "x \<le> 100"
  shows "exponent x \<le> 6"
proof (cases "1 \<le> x")
  case True
  have "\<lfloor>x\<rfloor> \<le> \<lfloor>100 :: rat\<rfloor>" using assms(2) by (rule floor_mono)
  also have "\<lfloor>100 :: rat\<rfloor> = 100" by simp
  finally have "nat \<lfloor>x\<rfloor> < 128" by linarith
  then have "nat \<lfloor>x\<rfloor> < 2 ^ 7" by simp
  then have "floorlog 2 (nat \<lfloor>x\<rfloor>) \<le> 7"
    by (simp add: floorlog_le_iff)
  with True show ?thesis by (simp add: exponent_def)
next
  case False
  then show ?thesis by (simp add: exponent_def)
qed

lemma binary64_percent:
  assumes "0 \<le> x" "x \<le> 100"
  shows "0 \<le> binary64 x" "binary64 x < 10 ^ 21"
proof -
  show "0 \<le> binary64 x"
    using assms(1)
      round_half_even_bounds(1) [of "x / 2 powi (max (exponent \<bar>x\<bar>) (- 1022) - 52)"]
    by (simp add: binary64_def Let_def)
  show "binary64 x < 10 ^ 21"
  proof (cases "x = 0")
    case True
    then show ?thesis by (simp add: binary64_def)
  next
    case False
    define u :: rat where "u = 2 powi (max (exponent \<bar>x\<bar>) (- 1022) - 52)"
    have u0: "0 < u" by (simp add: u_def)
    have "exponent \<bar>x\<bar> \<le> 6" using False assms by (intro exponent_le_6) simp_all
    then have "max (exponent \<bar>x\<bar>) (- 1022) - 52 \<le> 0" by simp
    then have u1: "u \<le> 1"
      unfolding u_def
      using power_int_increasing [of "max (exponent \<bar>x\<bar>) (- 1022) - 52" 0 "2 :: rat"]
      by simp
    have "binary64 x = of_int (round_half_even (x / u)) * u"
      using False by (simp add: binary64_def Let_def u_def)
    also have "\<dots> \<le> (x / u + 1) * u"
      using u0 round_half_even_bounds(2) [of "x / u"] by (simp add: mult_right_mono)
    also have "\<dots> = x + u" using u0 by (simp add: field_simps)
    also have "\<dots> \<le> 101" using assms(2) u1 by simp
    finally show ?thesis by simp
  qed
qed

text \<open>The binary64 numbers of the decimals that the examples below use.\<close>

lemma binary64_0_8: "binary64 0.8 = 3602879701896397 / 4503599627370496"
  by code_simp

lemma binary64_0_6: "binary64 0.6 = 5404319552844595 / 9007199254740992"
  by code_simp

lemma binary64_0_79999: "binary64 0.79999 = 3602834665900123 / 4503599627370496"
  by code_simp

lemma binary64_0_59999: "binary64 0.59999 = 337764342553253 / 562949953421312"
  by code_simp

lemma binary64_0_867: "binary64 0.867 = 976155219232555 / 1125899906842624"
  by code_simp

lemma binary64_86_7:
  "binary64 (976155219232555 / 1125899906842624 * 100) = 6100970120203469 / 70368744177664"
  by code_simp

lemma binary64_0_0015: "binary64 0.0015 = 3458764513820541 / 2305843009213693952"
  by code_simp

lemma binary64_0_15:
  "binary64 (3458764513820541 / 2305843009213693952 * 100) =
     5404319552844595 / 36028797018963968"
  by code_simp

lemma trim_question: "trim ''What is the revenue?'' = ''What is the revenue?''"
  by (simp add: trim_def is_js_space_def)

lemma trim_padded: "trim ''  And the costs? '' = ''And the costs?''"
  by (simp add: trim_def is_js_space_def)

lemma handleSubmit_Some:
  assumes "handleSubmit now ts st = Some (st', req)"
  shows "trim (input st) \<noteq> []" and "\<not> loading st"
    and "st' = st\<lparr>messages := messages st @
           [\<lparr>id_msg = now, type_msg = ''user'', content = Some (trim (input st)), sources = None,
             confidence = NumUndefined, timestamp = ts\<rparr>], input := [], loading := True\<rparr>"
    and "req = queryDocuments (trim (input st))
           (map (\<lambda>msg. \<lparr>role = (if type_msg msg = ''user'' then ''user'' else ''assistant''),
                         content_turn = content msg\<rparr>) (messages st))
           (if selectedDocument st \<noteq> [] then DocId (selectedDocument st) else DocUndefined)"
  using assms by (auto simp: handleSubmit_def Let_def split: if_splits)

lemma queryDocuments_fields:
  "query (queryDocuments q h a) = q" "conversation_history (queryDocuments q h a) = h"
  by (auto simp: queryDocuments_def Let_def truthy_doc_def split: docarg.splits)

lemma handleSubmit_question:
  "handleSubmit 1000 1000 (chat_init\<lparr>input := ''What is the revenue?''\<rparr>) =
     Some (chat_init\<lparr>messages := [\<lparr>id_msg = 1000, type_msg = ''user'',
              content = Some ''What is the revenue?'', sources = None, confidence = NumUndefined,
              timestamp = 1000\<rparr>], input := [], loading := True\<rparr>,
           \<lparr>query = ''What is the revenue?'', conversation_history = [],
            document_id_req = None\<rparr>)"
  by (simp add: handleSubmit_def trim_question chat_init_def Let_def queryDocuments_def
      truthy_doc_def)

lemma handleSubmit_scoped:
  "handleSubmit 1000 1000
     (chat_init\<lparr>input := ''What is the revenue?'', selectedDocument := ''doc-123''\<rparr>) =
     Some (chat_init\<lparr>messages := [\<lparr>id_msg = 1000, type_msg = ''user'',
              content = Some ''What is the revenue?'', sources = None, confidence = NumUndefined,
              timestamp = 1000\<rparr>], input := [], loading := True,
              selectedDocument := ''doc-123''\<rparr>,
           \<lparr>query = ''What is the revenue?'', conversation_history = [],
            document_id_req = Some ''doc-123''\<rparr>)"
  by (simp add: handleSubmit_def trim_question chat_init_def Let_def queryDocuments_def
      truthy_doc_def)

lemma handleSubmit_followup:
  "handleSubmit 3000 3001
     (chat_init\<lparr>messages :=
        [\<lparr>id_msg = 1000, type_msg = ''user'', content = Some ''What is the revenue?'',
          sources = None, confidence = NumUndefined, timestamp = 1000\<rparr>,
         \<lparr>id_msg = 2001, type_msg = ''bot'', content = Some ''42'', sources = Some [],
          confidence = Num 0.875, timestamp = 2000\<rparr>],
        input := ''  And the costs? ''\<rparr>) =
     Some (chat_init\<lparr>messages :=
        [\<lparr>id_msg = 1000, type_msg = ''user'', content = Some ''What is the revenue?'',
          sources = None, confidence = NumUndefined, timestamp = 1000\<rparr>,
         \<lparr>id_msg = 2001, type_msg = ''bot'', content = Some ''42'', sources = Some [],
          confidence = Num 0.875, timestamp = 2000\<rparr>,
         \<lparr>id_msg = 3000, type_msg = ''user'', content = Some ''And the costs?'',
          sources = None, confidence = NumUndefined, timestamp = 3001\<rparr>],
        input := [], loading := True\<rparr>,
       \<lparr>query = ''And the costs?'',
        conversation_history =
          [\<lparr>role = ''user'', content_turn = Some ''What is the revenue?''\<rparr>,
           \<lparr>role = ''assistant'', content_turn = Some ''42''\<rparr>],
        document_id_req = None\<rparr>)"
  by (simp add: handleSubmit_def trim_padded chat_init_def Let_def queryDocuments_def
      truthy_doc_def)

lemma submit_exchange_fulfilled:
  assumes "trim (question x) \<noteq> []" "\<not> loading st" "settled x = Fulfilled (Some r)"
  shows "submit_exchange st x =
           st\<lparr>messages := messages st @
             [\<lparr>id_msg = submitted_now x, type_msg = ''user'', content = Some (trim (question x)),
               sources = None, confidence = NumUndefined, timestamp = submitted_ts x\<rparr>,
              \<lparr>id_msg = settled_now x + 1, type_msg = ''bot'', content = answer r,
               sources = Some (case sources_resp r of Some l \<Rightarrow> l | None \<Rightarrow> []),
               confidence = confidence_resp r, timestamp = settled_ts x\<rparr>],
             input := [], loading := False\<rparr>"
  using assms
  by (simp add: submit_exchange_def handleSubmit_def handleSubmit_settled_def Let_def)

lemma run_exchanges_Cons: "run_exchanges st (x # xs) = run_exchanges (submit_exchange st x) xs"
  by (simp add: run_exchanges_def)

lemma run_exchanges_fulfilled:
  assumes "list_all2 (\<lambda>x r. trim (question x) \<noteq> [] \<and> settled x = Fulfilled (Some r)) xs rs"
    and "\<not> loading st"
  shows "\<not> loading (run_exchanges st xs) \<and>
         map type_msg (messages (run_exchanges st xs)) =
           map type_msg (messages st) @ concat (replicate (length xs) [''user'', ''bot'']) \<and>
         map content (messages (run_exchanges st xs)) =
           map content (messages st) @
           concat (map (\<lambda>(x, r). [Some (trim (question x)), answer r]) (zip xs rs))"
  using assms
proof (induction xs rs arbitrary: st rule: list_all2_induct)
  case Nil
  then show ?case by (simp add: run_exchanges_def)
next
  case (Cons x xs r rs)
  let ?st = "submit_exchange st x"
  have step: "?st = st\<lparr>messages := messages st @
             [\<lparr>id_msg = submitted_now x, type_msg = ''user'', content = Some (trim (question x)),
               sources = None, confidence = NumUndefined, timestamp = submitted_ts x\<rparr>,
              \<lparr>id_msg = settled_now x + 1, type_msg = ''bot'', content = answer r,
               sources = Some (case sources_resp r of Some l \<Rightarrow> l | None \<Rightarrow> []),
               confidence = confidence_resp r, timestamp = settled_ts x\<rparr>],
             input := [], loading := False\<rparr>"
    using Cons.hyps(1) Cons.prems by (intro submit_exchange_fulfilled) simp_all
  have "\<not> loading ?st" by (simp add: step)
  from Cons.IH [OF this] show ?case
    unfolding run_exchanges_Cons by (simp add: step)
qed

lemma length_user_bot: "length (concat (replicate n [''user'', ''bot''])) = 2 * n"
  by (induction n) simp_all

lemma submit_exchange_messages:
  "messages (submit_exchange st x) = messages st \<or>
   (\<exists>u b. messages (submit_exchange st x) = messages st @ [u, b] \<and>
      id_msg u = submitted_now x \<and> id_msg b = settled_now x + 1)"
  by (cases "settled x")
    (auto simp: submit_exchange_def handleSubmit_def handleSubmit_settled_def Let_def
      split: option.splits)

lemma submit_exchange_ids:
  assumes "sorted_wrt (<) (map id_msg (messages st))"
    and "\<forall>m\<in>set (messages st). id_msg m \<le> t"
    and "t < submitted_now x" "submitted_now x \<le> settled_now x"
  shows "sorted_wrt (<) (map id_msg (messages (submit_exchange st x)))"
    and "\<forall>m\<in>set (messages (submit_exchange st x)). id_msg m \<le> settled_now x + 1"
  using submit_exchange_messages [of st x] assms
  by (fastforce simp: sorted_wrt_append)+

lemma run_exchanges_ids:
  assumes "sorted_wrt (<) (map id_msg (messages st))"
    and "\<forall>m\<in>set (messages st). id_msg m \<le> t"
    and "clock_advances t xs"
  shows "sorted_wrt (<) (map id_msg (messages (run_exchanges st xs)))"
  using assms
proof (induction xs arbitrary: st t)
  case Nil
  then show ?case by (simp add: run_exchanges_def)
next
  case (Cons x xs)
  from Cons.prems(3) have c: "t < submitted_now x" "submitted_now x \<le> settled_now x"
    "clock_advances (settled_now x + 1) xs" by simp_all
  have "sorted_wrt (<) (map id_msg (messages (run_exchanges (submit_exchange st x) xs)))"
    by (rule Cons.IH [OF submit_exchange_ids [OF Cons.prems(1,2) c(1,2)] c(3)])
  then show ?case by (simp add: run_exchanges_Cons)
qed

lemma run_exchanges_prefix: "prefix (messages st) (messages (run_exchanges st xs))"
proof (induction xs arbitrary: st)
  case Nil
  then show ?case by (simp add: run_exchanges_def)
next
  case (Cons x xs)
  have "prefix (messages st) (messages (submit_exchange st x))"
    using submit_exchange_messages [of st x] by auto
  also have "prefix \<dots> (messages (run_exchanges (submit_exchange st x) xs))"
    by (rule Cons.IH)
  finally show ?case by (simp add: run_exchanges_Cons)
qed

lemma open_modal_init:
  "open_modal d (modal_init :: 'p modal) =
     \<lparr>document = Some d, isOpen = True, loading_summary = True, summaryData = None,
      error = None, inflight = [document_id d], toasts_summary = []\<rparr>"
  by (simp add: open_modal_def modal_init_def generateSummary_def Let_def)

lemma requestSummary_loading:
  assumes "loading_summary st"
  shows "inflight (requestSummary st t) = inflight st \<and> loading_summary (requestSummary st t)"
  using assms
  by (cases t)
    (simp_all add: open_modal_def click_try_again_def click_generate_def click_regenerate_def
      Let_def)

lemma requestSummary_loading_click:
  assumes "loading_summary st" "t \<in> {TryAgain, Generate, Regenerate}"
  shows "requestSummary st t = st"
  using assms
  by (auto simp: click_try_again_def click_generate_def click_regenerate_def)

lemma foldl_requestSummary_loading:
  assumes "loading_summary st"
  shows "inflight (foldl requestSummary st ts) = inflight st \<and>
         loading_summary (foldl requestSummary st ts)"
  using assms
proof (induction ts arbitrary: st)
  case Nil
  then show ?case by simp
next
  case (Cons t ts)
  from requestSummary_loading [OF Cons.prems, of t] Cons.IH [of "requestSummary st t"]
  show ?case by simp
qed

lemma digits_less_10: "n < 10 \<Longrightarrow> digits n = [''0123456789'' ! n]"
  by (subst digits.simps) simp

lemma digits_ge_10:
  "\<not> n < 10 \<Longrightarrow> digits n = digits (n div 10) @ [''0123456789'' ! (n mod 10)]"
  by (subst digits.simps) simp

lemma length_digits:
  "length (digits n) = (if n < 10 then 1 else Suc (length (digits (n div 10))))"
  by (subst digits.simps) simp

lemma length_digits_le_1: "length (digits n) \<le> Suc 0 \<longleftrightarrow> n < 10"
proof (cases "n < 10")
  case True
  then show ?thesis by (simp add: digits_less_10)
next
  case False
  have "0 < length (digits (n div 10))"
    by (subst length_digits) simp
  with False show ?thesis by (simp add: digits_ge_10)
qed

lemma toFixed_1:
  assumes "0 \<le> x" "x < 10 ^ 21"
  shows "toFixed 1 x =
    Some (digits (nat \<lfloor>x * 10 + 1 / 2\<rfloor> div 10) @ ''.'' @
          digits (nat \<lfloor>x * 10 + 1 / 2\<rfloor> mod 10))"
proof -
  define n where "n = nat \<lfloor>x * 10 + 1 / 2\<rfloor>"
  have m: "n mod 10 < 10" by simp
  show ?thesis
  proof (cases "n < 10")
    case True
    then have "length (digits n) = Suc 0" by (simp add: digits_less_10)
    with True assms show ?thesis
      unfolding n_def [symmetric]
      by (simp add: toFixed_def Let_def n_def [symmetric] digits_less_10 [of 0])
  next
    case False
    then have l: "\<not> length (digits n) \<le> Suc 0" by (simp add: length_digits_le_1)
    have d: "digits n = digits (n div 10) @ digits (n mod 10)"
      using digits_ge_10 [OF False] digits_less_10 [OF m] by simp
    have len: "length (digits (n mod 10)) = 1" using digits_less_10 [OF m] by simp
    from assms l show ?thesis
      unfolding n_def [symmetric]
      by (simp add: toFixed_def Let_def n_def [symmetric] d len)
  qed
qed

lemma toFixed_1_neg:
  assumes "x < 0" "- (10 ^ 21) < x"
  shows "toFixed 1 x =
    Some (''-'' @ digits (nat \<lfloor>- x * 10 + 1 / 2\<rfloor> div 10) @ ''.'' @
          digits (nat \<lfloor>- x * 10 + 1 / 2\<rfloor> mod 10))"
proof -
  have "toFixed 1 x = map_option ((@) ''-'') (toFixed 1 (- x))"
    using assms by (simp add: toFixed_def Let_def)
  also have "toFixed 1 (- x) =
      Some (digits (nat \<lfloor>- x * 10 + 1 / 2\<rfloor> div 10) @ ''.'' @
            digits (nat \<lfloor>- x * 10 + 1 / 2\<rfloor> mod 10))"
    using assms by (intro toFixed_1) simp_all
  finally show ?thesis by simp
qed

lemma digits_867: "digits 86 = ''86''" "digits 7 = ''7''"
  by (simp_all add: digits.simps [of 86] digits.simps [of 8] digits.simps [of 7])

lemma formatSource_report:
  "formatSource \<lparr>filename = ''report.pdf'', similarity_score = binary64 0.867\<rparr> =
     Some ''report.pdf (similarity: 86.7%)''"
proof -
  have y: "binary64 (binary64 0.867 * 100) = 6100970120203469 / 70368744177664"
    by (simp only: binary64_0_867 binary64_86_7)
  have f: "\<lfloor>30522442787061761 / 35184372088832 :: rat\<rfloor> = 867"
    by (rule floor_unique) simp_all
  have "toFixed 1 (6100970120203469 / 70368744177664) = Some ''86.7''"
    using toFixed_1 [of "6100970120203469 / 70368744177664"]
    by (simp add: f digits_867)
  then show ?thesis
    unfolding formatSource_def source.select_convs y by simp
qed

section \<open>The conversation history sent with a query\<close>

text \<open>
  Claim C1. Whenever a submission is accepted, the \<^verbatim>\<open>conversation_history\<close> of the request
  is, message by message and in log order, the role and the content of the log as it stood
  before the submission. The user message of the submission itself is appended after that
  log, so the history is the projection of the new log without its last entry; the
  question travels only in the \<^verbatim>\<open>query\<close> field.
\<close>

theorem handleSubmit_history:
  assumes "handleSubmit now ts st = Some (st', req)"
  shows "map role (conversation_history req) =
           map (\<lambda>m. if type_msg m = ''user'' then ''user'' else ''assistant'') (messages st) \<and>
         map content_turn (conversation_history req) = map content (messages st) \<and>
         messages st' = messages st @
           [\<lparr>id_msg = now, type_msg = ''user'', content = Some (query req), sources = None,
             confidence = NumUndefined, timestamp = ts\<rparr>] \<and>
         map content_turn (conversation_history req) = map content (butlast (messages st')) \<and>
         length (conversation_history req) = length (messages st') - 1 \<and>
         query req = trim (input st)"
  using handleSubmit_Some(3,4) [OF assms]
  by (simp add: queryDocuments_fields comp_def)

theorem handleSubmit_history_witness:
  "handleSubmit 3000 3001
     (chat_init\<lparr>messages :=
        [\<lparr>id_msg = 1000, type_msg = ''user'', content = Some ''What is the revenue?'',
          sources = None, confidence = NumUndefined, timestamp = 1000\<rparr>,
         \<lparr>id_msg = 2001, type_msg = ''bot'', content = Some ''42'', sources = Some [],
          confidence = Num 0.875, timestamp = 2000\<rparr>],
        input := ''  And the costs? ''\<rparr>) =
     Some (chat_init\<lparr>messages :=
        [\<lparr>id_msg = 1000, type_msg = ''user'', content = Some ''What is the revenue?'',
          sources = None, confidence = NumUndefined, timestamp = 1000\<rparr>,
         \<lparr>id_msg = 2001, type_msg = ''bot'', content = Some ''42'', sources = Some [],
          confidence = Num 0.875, timestamp = 2000\<rparr>,
         \<lparr>id_msg = 3000, type_msg = ''user'', content = Some ''And the costs?'',
          sources = None, confidence = NumUndefined, timestamp = 3001\<rparr>],
        input := [], loading := True\<rparr>,
       \<lparr>query = ''And the costs?'',
        conversation_history =
          [\<lparr>role = ''user'', content_turn = Some ''What is the revenue?''\<rparr>,
           \<lparr>role = ''assistant'', content_turn = Some ''42''\<rparr>],
        document_id_req = None\<rparr>) \<and>
   map role (conversation_history
     \<lparr>query = ''And the costs?'',
      conversation_history =
        [\<lparr>role = ''user'', content_turn = Some ''What is the revenue?''\<rparr>,
         \<lparr>role = ''assistant'', content_turn = Some ''42''\<rparr>],
      document_id_req = None\<rparr>) = [''user'', ''assistant''] \<and>
   map content_turn (conversation_history
     \<lparr>query = ''And the costs?'',
      conversation_history =
        [\<lparr>role = ''user'', content_turn = Some ''What is the revenue?''\<rparr>,
         \<lparr>role = ''assistant'', content_turn = Some ''42''\<rparr>],
      document_id_req = None\<rparr>) =
   map content
     [\<lparr>id_msg = 1000, type_msg = ''user'', content = Some ''What is the revenue?'',
       sources = None, confidence = NumUndefined, timestamp = 1000\<rparr>,
      \<lparr>id_msg = 2001, type_msg = ''bot'', content = Some ''42'', sources = Some [],
       confidence = Num 0.875, timestamp = 2000\<rparr>]"
  using handleSubmit_history [OF handleSubmit_followup] handleSubmit_followup
  by (simp add: chat_init_def)

section \<open>A query that fails\<close>

text \<open>
  Claim C2, as the code has it. When the query of an accepted submission is rejected
  (a network error, a status outside 2xx) or is fulfilled with \<^verbatim>\<open>null\<close> or
  \<^verbatim>\<open>undefined\<close>, the log gains exactly one bot message after the user's message, which
  stays where it was: the fixed apology, an empty source list and the confidence \<open>0\<close>,
  which is rendered as the badge "Low". One error notification is emitted and
  \<^verbatim>\<open>loading\<close> is false afterwards. Every other fulfilled reply, with or without an
  \<^verbatim>\<open>answer\<close>, is not taken as a failure: the bot message is built from the reply, its
  content being whatever \<^verbatim>\<open>answer\<close> the reply had, and no notification is emitted.
\<close>

theorem handleSubmit_rejected:
  assumes "handleSubmit now ts st = Some (st', req)"
  shows "(r \<in> {Rejected, Fulfilled None} \<longrightarrow>
           messages (handleSubmit_settled now' ts' r st') =
             messages st @
             [\<lparr>id_msg = now, type_msg = ''user'', content = Some (trim (input st)),
               sources = None, confidence = NumUndefined, timestamp = ts\<rparr>,
              \<lparr>id_msg = now' + 1, type_msg = ''bot'',
               content = Some ''I apologize, but I encountered an error while processing your request. Please try again.'',
               sources = Some [], confidence = Num 0, timestamp = ts'\<rparr>] \<and>
           confidence_badge (last (messages (handleSubmit_settled now' ts' r st'))) =
             Some ''Low'' \<and>
           toasts (handleSubmit_settled now' ts' r st') =
             toasts st @ [ToastError ''Failed to get response. Please try again.''] \<and>
           loading (handleSubmit_settled now' ts' r st') = False) \<and>
         messages (handleSubmit_settled now' ts' (Fulfilled (Some resp)) st') =
           messages st @
           [\<lparr>id_msg = now, type_msg = ''user'', content = Some (trim (input st)),
             sources = None, confidence = NumUndefined, timestamp = ts\<rparr>,
            \<lparr>id_msg = now' + 1, type_msg = ''bot'', content = answer resp,
             sources = Some (case sources_resp resp of Some l \<Rightarrow> l | None \<Rightarrow> []),
             confidence = confidence_resp resp, timestamp = ts'\<rparr>] \<and>
         toasts (handleSubmit_settled now' ts' (Fulfilled (Some resp)) st') = toasts st \<and>
         loading (handleSubmit_settled now' ts' (Fulfilled (Some resp)) st') = False"
  using handleSubmit_Some(3) [OF assms] binary64_0_8 binary64_0_6
  by (auto simp: handleSubmit_settled_def confidence_badge_def getConfidenceText_def js_ge_def)

theorem handleSubmit_rejected_witness:
  "handleSubmit 1000 1000 (chat_init\<lparr>input := ''What is the revenue?''\<rparr>) =
     Some (chat_init\<lparr>messages := [\<lparr>id_msg = 1000, type_msg = ''user'',
              content = Some ''What is the revenue?'', sources = None,
              confidence = NumUndefined, timestamp = 1000\<rparr>], input := [], loading := True\<rparr>,
           \<lparr>query = ''What is the revenue?'', conversation_history = [],
            document_id_req = None\<rparr>) \<and>
   messages (handleSubmit_settled 1500 1500 Rejected
      (chat_init\<lparr>messages := [\<lparr>id_msg = 1000, type_msg = ''user'',
              content = Some ''What is the revenue?'', sources = None,
              confidence = NumUndefined, timestamp = 1000\<rparr>], input := [], loading := True\<rparr>)) =
     [\<lparr>id_msg = 1000, type_msg = ''user'', content = Some ''What is the revenue?'',
       sources = None, confidence = NumUndefined, timestamp = 1000\<rparr>,
      \<lparr>id_msg = 1501, type_msg = ''bot'',
       content = Some ''I apologize, but I encountered an error while processing your request. Please try again.'',
       sources = Some [], confidence = Num 0, timestamp = 1500\<rparr>] \<and>
   toasts (handleSubmit_settled 1500 1500 (Fulfilled None)
      (chat_init\<lparr>messages := [\<lparr>id_msg = 1000, type_msg = ''user'',
              content = Some ''What is the revenue?'', sources = None,
              confidence = NumUndefined, timestamp = 1000\<rparr>], input := [], loading := True\<rparr>)) =
     [ToastError ''Failed to get response. Please try again.''] \<and>
   loading (handleSubmit_settled 1500 1500 Rejected
      (chat_init\<lparr>messages := [\<lparr>id_msg = 1000, type_msg = ''user'',
              content = Some ''What is the revenue?'', sources = None,
              confidence = NumUndefined, timestamp = 1000\<rparr>], input := [], loading := True\<rparr>)) =
     False"
  using handleSubmit_rejected [OF handleSubmit_question, of Rejected 1500 1500]
    handleSubmit_rejected [OF handleSubmit_question, of "Fulfilled None" 1500 1500]
    handleSubmit_question
  by (simp add: chat_init_def trim_question)

text \<open>
  The claim as written asks for an absent confidence, and counts a malformed reply as a
  failure. After "What is the revenue?" is rejected, the fallback message carries the
  number \<open>0\<close> and shows the badge "Low". After the same question is answered by a body
  without \<^verbatim>\<open>answer\<close>, the log gains a bot message without content and no notification is
  emitted.
\<close>

theorem handleSubmit_rejected_counterexample:
  "confidence (last (messages (handleSubmit_settled 1500 1500 Rejected
      (chat_init\<lparr>messages := [\<lparr>id_msg = 1000, type_msg = ''user'',
              content = Some ''What is the revenue?'', sources = None,
              confidence = NumUndefined, timestamp = 1000\<rparr>], input := [], loading := True\<rparr>)))) =
     Num 0 \<and>
   Num 0 \<noteq> NumUndefined \<and>
   confidence_badge (last (messages (handleSubmit_settled 1500 1500 Rejected
      (chat_init\<lparr>messages := [\<lparr>id_msg = 1000, type_msg = ''user'',
              content = Some ''What is the revenue?'', sources = None,
              confidence = NumUndefined, timestamp = 1000\<rparr>], input := [], loading := True\<rparr>)))) =
     Some ''Low'' \<and>
   last (messages (handleSubmit_settled 1500 1500
      (Fulfilled (Some \<lparr>answer = None, sources_resp = None, confidence_resp = NumUndefined\<rparr>))
      (chat_init\<lparr>messages := [\<lparr>id_msg = 1000, type_msg = ''user'',
              content = Some ''What is the revenue?'', sources = None,
              confidence = NumUndefined, timestamp = 1000\<rparr>], input := [], loading := True\<rparr>))) =
     \<lparr>id_msg = 1501, type_msg = ''bot'', content = None, sources = Some [],
      confidence = NumUndefined, timestamp = 1500\<rparr> \<and>
   toasts (handleSubmit_settled 1500 1500
      (Fulfilled (Some \<lparr>answer = None, sources_resp = None, confidence_resp = NumUndefined\<rparr>))
      (chat_init\<lparr>messages := [\<lparr>id_msg = 1000, type_msg = ''user'',
              content = Some ''What is the revenue?'', sources = None,
              confidence = NumUndefined, timestamp = 1000\<rparr>], input := [], loading := True\<rparr>)) =
     []"
  using binary64_0_8 binary64_0_6
  by (simp add: handleSubmit_settled_def chat_init_def confidence_badge_def
      getConfidenceText_def js_ge_def)

section \<open>A summary request that settles after the modal was closed\<close>

text \<open>
  Claim C3, as the code has it. Closing the modal while a summary request is in flight
  shows no summary at once and leaves the request in flight. When that request settles,
  its result is stored all the same: a fulfilled request with a summary leaves the state
  ready with that summary, a rejected one leaves it failed; only a fulfilled request
  without a summary leaves it absent.
\<close>

theorem late_summary_is_applied:
  assumes "rendered st" "inflight st \<noteq> []"
  shows "summary_state (close_modal st) = Absent \<and>
         inflight (close_modal st) = inflight st \<and>
         summary_state (generateSummary_settled (Fulfilled (Some p)) (close_modal st)) =
           Ready p \<and>
         summary_state (generateSummary_settled (Fulfilled None) (close_modal st)) = Absent \<and>
         summary_state (generateSummary_settled Rejected (close_modal st)) =
           Failed ''Failed to generate document summary. Please try again.''"
  using assms
  by (cases "inflight st")
    (auto simp: rendered_def close_modal_def summary_state_def generateSummary_settled_def
      truthy_str_def)

theorem late_summary_is_applied_witness:
  "summary_state (close_modal
     (open_modal \<lparr>document_id = ''doc-123'', filename_doc = ''report.pdf''\<rparr>
        (modal_init :: string modal))) = Absent \<and>
   summary_state (generateSummary_settled Rejected (close_modal
     (open_modal \<lparr>document_id = ''doc-123'', filename_doc = ''report.pdf''\<rparr>
        (modal_init :: string modal)))) =
     Failed ''Failed to generate document summary. Please try again.''"
proof -
  let ?st = "open_modal \<lparr>document_id = ''doc-123'', filename_doc = ''report.pdf''\<rparr>
    (modal_init :: string modal)"
  have "rendered ?st" "inflight ?st \<noteq> []"
    by (simp_all add: open_modal_init rendered_def)
  from late_summary_is_applied [OF this] show ?thesis by simp
qed

text \<open>
  The claim as written asks for an absent state after the late completion. Opening the
  modal on a document starts a request; closing it and then letting the request be
  fulfilled leaves the state ready with the late summary, and opening the modal on another
  document afterwards shows that summary without a new request.
\<close>

theorem late_summary_is_applied_counterexample:
  "summary_state (open_modal \<lparr>document_id = ''doc-123'', filename_doc = ''report.pdf''\<rparr>
      (modal_init :: string modal)) = Loading \<and>
   summary_state (generateSummary_settled (Fulfilled (Some ''late summary''))
     (close_modal (open_modal \<lparr>document_id = ''doc-123'', filename_doc = ''report.pdf''\<rparr>
        modal_init))) = Ready ''late summary'' \<and>
   summary_state (open_modal \<lparr>document_id = ''doc-456'', filename_doc = ''notes.txt''\<rparr>
     (generateSummary_settled (Fulfilled (Some ''late summary''))
       (close_modal (open_modal \<lparr>document_id = ''doc-123'', filename_doc = ''report.pdf''\<rparr>
          modal_init)))) = Ready ''late summary''"
proof -
  have "generateSummary_settled (Fulfilled (Some ''late summary''))
     (close_modal (open_modal \<lparr>document_id = ''doc-123'', filename_doc = ''report.pdf''\<rparr>
        modal_init)) =
     \<lparr>document = None, isOpen = False, loading_summary = False,
      summaryData = Some ''late summary'', error = None, inflight = [],
      toasts_summary = [ToastSuccess ''Document summary generated successfully!'']\<rparr>"
    (is "?late = _")
    by (simp add: open_modal_init close_modal_def generateSummary_settled_def)
  then have "summary_state ?late = Ready ''late summary''"
    and "summary_state (open_modal \<lparr>document_id = ''doc-456'', filename_doc = ''notes.txt''\<rparr>
      ?late) = Ready ''late summary''"
    by (simp_all add: open_modal_def summary_state_def truthy_str_def Let_def)
  moreover have "summary_state
      (open_modal \<lparr>document_id = ''doc-123'', filename_doc = ''report.pdf''\<rparr>
        (modal_init :: string modal)) = Loading"
    by (simp add: open_modal_init summary_state_def)
  ultimately show ?thesis by simp
qed

section \<open>Requesting a summary while one is loading\<close>

text \<open>
  Claim C4, as the code has it. While \<^verbatim>\<open>loading\<close> is set, no way of requesting a summary
  that the component offers issues a network call, and each of the three buttons leaves
  the state as it is; so after the modal is opened on a document, any further requests
  while the first is loading leave exactly one call in flight. The guard is in the effect
  and in the buttons: \<^verbatim>\<open>generateSummary\<close> itself issues a call whenever a document is set.
\<close>

theorem one_call_while_loading:
  "(loading_summary st \<longrightarrow>
      inflight (foldl requestSummary st ts) = inflight st \<and>
      (t \<in> {TryAgain, Generate, Regenerate} \<longrightarrow> requestSummary st t = st)) \<and>
   inflight (foldl requestSummary (open_modal d (modal_init :: 'p modal)) ts) =
     [document_id d] \<and>
   (document st = Some d \<longrightarrow> inflight (generateSummary st) = inflight st @ [document_id d])"
  for st :: "'p modal"
proof -
  have "loading_summary (open_modal d (modal_init :: 'p modal))"
    by (simp add: open_modal_init)
  from foldl_requestSummary_loading [OF this, of ts]
  show ?thesis
    using foldl_requestSummary_loading [of st ts] requestSummary_loading_click [of st t]
    by (simp add: open_modal_init generateSummary_def)
qed

theorem one_call_while_loading_witness:
  "loading_summary (open_modal \<lparr>document_id = ''doc-123'', filename_doc = ''report.pdf''\<rparr>
     (modal_init :: string modal)) \<and>
   inflight (foldl requestSummary
     (open_modal \<lparr>document_id = ''doc-123'', filename_doc = ''report.pdf''\<rparr>
        (modal_init :: string modal))
     [Generate, Reopen \<lparr>document_id = ''doc-123'', filename_doc = ''report.pdf''\<rparr>,
      Regenerate]) = [''doc-123'']"
  using one_call_while_loading
    [of "open_modal \<lparr>document_id = ''doc-123'', filename_doc = ''report.pdf''\<rparr>
           (modal_init :: string modal)"
        "[Generate, Reopen \<lparr>document_id = ''doc-123'', filename_doc = ''report.pdf''\<rparr>,
          Regenerate]"
        Generate "\<lparr>document_id = ''doc-123'', filename_doc = ''report.pdf''\<rparr>"]
  by (auto simp: open_modal_init)

text \<open>
  The claim as written allows one request in flight per document at any time. Closing the
  modal clears \<^verbatim>\<open>loading\<close> without cancelling the call, so opening it again on the same
  document issues a second call while the first is still in flight.
\<close>

theorem one_call_while_loading_counterexample:
  "inflight (open_modal \<lparr>document_id = ''doc-123'', filename_doc = ''report.pdf''\<rparr>
     (close_modal (open_modal \<lparr>document_id = ''doc-123'', filename_doc = ''report.pdf''\<rparr>
        (modal_init :: string modal)))) = [''doc-123'', ''doc-123'']"
proof -
  have "close_modal (open_modal \<lparr>document_id = ''doc-123'', filename_doc = ''report.pdf''\<rparr>
        (modal_init :: string modal)) =
      \<lparr>document = None, isOpen = False, loading_summary = False, summaryData = None,
       error = None, inflight = [''doc-123''], toasts_summary = []\<rparr>"
    by (simp add: open_modal_init close_modal_def)
  then show ?thesis
    by (simp add: open_modal_def generateSummary_def Let_def)
qed

section \<open>The document scope\<close>

text \<open>
  Claim C5, as the code has it. The scope is empty or names a listed document in the
  initial state, and each choice in the dropdown keeps it so. A refresh of the document
  list replaces the list and never changes the scope: after a refresh the scope is still
  valid exactly when it is empty or the new list contains the selected id.
\<close>

theorem loadDocuments_keeps_scope:
  "scope_ok chat_init \<and>
   (scope_ok st \<longrightarrow> scope_ok (select_all st) \<and> scope_ok (select_document i st)) \<and>
   selectedDocument (loadDocuments r st) = selectedDocument st \<and>
   (scope_ok (loadDocuments (Fulfilled (Some l)) st) \<longleftrightarrow>
      selectedDocument st = [] \<or> selectedDocument st \<in> set (map document_id l))"
  by (auto simp: scope_ok_def chat_init_def select_all_def select_document_def
      loadDocuments_def split: outcome.splits option.splits)

theorem loadDocuments_keeps_scope_witness:
  "scope_ok (loadDocuments
     (Fulfilled (Some [\<lparr>document_id = ''doc-123'', filename_doc = ''report.pdf''\<rparr>])) chat_init) \<and>
   scope_ok (select_document 0 (loadDocuments
     (Fulfilled (Some [\<lparr>document_id = ''doc-123'', filename_doc = ''report.pdf''\<rparr>])) chat_init)) \<and>
   selectedDocument (select_document 0 (loadDocuments
     (Fulfilled (Some [\<lparr>document_id = ''doc-123'', filename_doc = ''report.pdf''\<rparr>])) chat_init)) =
     ''doc-123''"
proof -
  let ?st = "loadDocuments
     (Fulfilled (Some [\<lparr>document_id = ''doc-123'', filename_doc = ''report.pdf''\<rparr>])) chat_init"
  have ok: "scope_ok ?st"
    by (simp add: scope_ok_def loadDocuments_def chat_init_def)
  have "selectedDocument (select_document 0 ?st) = ''doc-123''"
    by (simp add: select_document_def loadDocuments_def chat_init_def)
  with ok loadDocuments_keeps_scope [of ?st 0] show ?thesis by simp
qed

text \<open>
  The claim as written asks for a reset. With "doc-123" selected, a refresh to a list
  without it leaves "doc-123" selected, and the scope names a document that is not listed.
\<close>

theorem loadDocuments_keeps_scope_counterexample:
  "selectedDocument (loadDocuments (Fulfilled (Some []))
     (select_document 0 (loadDocuments
        (Fulfilled (Some [\<lparr>document_id = ''doc-123'', filename_doc = ''report.pdf''\<rparr>]))
        chat_init))) = ''doc-123'' \<and>
   \<not> scope_ok (loadDocuments (Fulfilled (Some []))
     (select_document 0 (loadDocuments
        (Fulfilled (Some [\<lparr>document_id = ''doc-123'', filename_doc = ''report.pdf''\<rparr>]))
        chat_init)))"
  by (simp add: scope_ok_def chat_init_def select_document_def loadDocuments_def)

section \<open>The confidence badge\<close>

text \<open>
  Claim C6, as the code has it. The confidence is compared, as a binary64 number, with
  the binary64 numbers of the literals 0.8 and 0.6: \<^verbatim>\<open>getConfidenceText\<close> gives "High"
  from 0.8 on, "Medium" from 0.6 up to but not including 0.8, and "Low" below 0.6, the
  lower bound of each bucket belonging to it; so the confidences 0.8, 0.79999, 0.6 and
  0.59999 of a reply give "High", "Medium", "Medium" and "Low". For an undefined
  confidence it gives "Low" as well, there being no fourth bucket; the message then
  shows no badge at all.
\<close>

theorem getConfidenceText_buckets:
  "(binary64 0.8 \<le> c \<longrightarrow> getConfidenceText (Num c) = ''High'') \<and>
   (binary64 0.6 \<le> c \<and> c < binary64 0.8 \<longrightarrow> getConfidenceText (Num c) = ''Medium'') \<and>
   (c < binary64 0.6 \<longrightarrow> getConfidenceText (Num c) = ''Low'') \<and>
   binary64 0.8 = 3602879701896397 / 4503599627370496 \<and>
   binary64 0.6 = 5404319552844595 / 9007199254740992 \<and>
   getConfidenceText (Num (binary64 0.8)) = ''High'' \<and>
   getConfidenceText (Num (binary64 0.79999)) = ''Medium'' \<and>
   getConfidenceText (Num (binary64 0.6)) = ''Medium'' \<and>
   getConfidenceText (Num (binary64 0.59999)) = ''Low'' \<and>
   getConfidenceText NumUndefined = ''Low'' \<and>
   (confidence m = NumUndefined \<longrightarrow> confidence_badge m = None)"
  unfolding getConfidenceText_def js_ge_def confidence_badge_def
    binary64_0_8 binary64_0_6 binary64_0_79999 binary64_0_59999
  by simp

theorem getConfidenceText_buckets_witness:
  "binary64 0.8 \<le> 1 \<and> getConfidenceText (Num 1) = ''High'' \<and>
   binary64 0.6 \<le> 3 / 4 \<and> 3 / 4 < binary64 0.8 \<and> getConfidenceText (Num (3 / 4)) = ''Medium'' \<and>
   1 / 2 < binary64 0.6 \<and> getConfidenceText (Num (1 / 2)) = ''Low'' \<and>
   confidence_badge \<lparr>id_msg = 1, type_msg = ''bot'', content = Some ''42'', sources = Some [],
     confidence = NumUndefined, timestamp = 1\<rparr> = None"
proof -
  have h: "binary64 0.8 \<le> 1" "binary64 0.6 \<le> 3 / 4" "3 / 4 < binary64 0.8"
    "1 / 2 < binary64 0.6"
    unfolding binary64_0_8 binary64_0_6 by simp_all
  show ?thesis
    using h getConfidenceText_buckets [of 1]
      getConfidenceText_buckets [of "3 / 4"]
      getConfidenceText_buckets [of "1 / 2" "\<lparr>id_msg = 1, type_msg = ''bot'',
        content = Some ''42'', sources = Some [], confidence = NumUndefined, timestamp = 1\<rparr>"]
    by simp
qed

text \<open>The claim as written asks for "Unknown" on an undefined confidence.\<close>

theorem getConfidenceText_buckets_counterexample:
  "getConfidenceText NumUndefined = ''Low'' \<and> getConfidenceText NumUndefined \<noteq> ''Unknown''"
  by (simp add: getConfidenceText_def js_ge_def)

section \<open>The message log after successful submissions\<close>

text \<open>
  Claim C7. After any sequence of \<open>N\<close> submissions with a non-blank question and a
  fulfilled query each, started in any state that is not \<^verbatim>\<open>loading\<close>, whatever its
  document list and scope, the log has gained exactly \<open>2 N\<close> messages, so it has
  exactly \<open>2 N\<close> when it was empty: a user message with the trimmed question followed
  by a bot message with the answer, for each submission in the order of the submissions.
  A submission whose input is empty after trimming, or made while \<^verbatim>\<open>loading\<close>, returns at
  once: nothing is appended and nothing is sent.
\<close>

theorem submissions_alternate:
  assumes "list_all2 (\<lambda>x r. trim (question x) \<noteq> [] \<and> settled x = Fulfilled (Some r)) xs rs"
    and "\<not> loading st"
  shows "length (messages (run_exchanges st xs)) = length (messages st) + 2 * length xs \<and>
         (messages st = [] \<longrightarrow> length (messages (run_exchanges st xs)) = 2 * length xs) \<and>
         map type_msg (messages (run_exchanges st xs)) =
           map type_msg (messages st) @ concat (replicate (length xs) [''user'', ''bot'']) \<and>
         map content (messages (run_exchanges st xs)) =
           map content (messages st) @
           concat (map (\<lambda>(x, r). [Some (trim (question x)), answer r]) (zip xs rs)) \<and>
         (trim (input st') = [] \<or> loading st' \<longrightarrow> handleSubmit now ts st' = None)"
proof -
  note r = run_exchanges_fulfilled [OF assms]
  have "length (messages (run_exchanges st xs)) =
        length (map type_msg (messages (run_exchanges st xs)))"
    by simp
  also have "\<dots> = length (messages st) + 2 * length xs"
    unfolding conjunct1 [OF conjunct2 [OF r]] by (simp add: length_user_bot)
  finally show ?thesis
    using r by (simp add: handleSubmit_def)
qed

theorem submissions_alternate_witness:
  "map content (messages (run_exchanges
     (chat_init\<lparr>documents := [\<lparr>document_id = ''doc-123'', filename_doc = ''report.pdf''\<rparr>],
                selectedDocument := ''doc-123''\<rparr>)
     [\<lparr>question = ''What is the revenue?'', submitted_now = 1000, submitted_ts = 1000,
       settled = Fulfilled (Some \<lparr>answer = Some ''42'', sources_resp = None,
         confidence_resp = Num 0.875\<rparr>),
       settled_now = 2000, settled_ts = 2000\<rparr>,
      \<lparr>question = ''  And the costs? '', submitted_now = 3000, submitted_ts = 3000,
       settled = Fulfilled (Some \<lparr>answer = Some ''17'', sources_resp = Some [],
         confidence_resp = NumUndefined\<rparr>),
       settled_now = 4000, settled_ts = 4000\<rparr>])) =
     [Some ''What is the revenue?'', Some ''42'', Some ''And the costs?'', Some ''17''] \<and>
   map type_msg (messages (run_exchanges
     (chat_init\<lparr>documents := [\<lparr>document_id = ''doc-123'', filename_doc = ''report.pdf''\<rparr>],
                selectedDocument := ''doc-123''\<rparr>)
     [\<lparr>question = ''What is the revenue?'', submitted_now = 1000, submitted_ts = 1000,
       settled = Fulfilled (Some \<lparr>answer = Some ''42'', sources_resp = None,
         confidence_resp = Num 0.875\<rparr>),
       settled_now = 2000, settled_ts = 2000\<rparr>,
      \<lparr>question = ''  And the costs? '', submitted_now = 3000, submitted_ts = 3000,
       settled = Fulfilled (Some \<lparr>answer = Some ''17'', sources_resp = Some [],
         confidence_resp = NumUndefined\<rparr>),
       settled_now = 4000, settled_ts = 4000\<rparr>])) = [''user'', ''bot'', ''user'', ''bot''] \<and>
   handleSubmit 5000 5000 (chat_init\<lparr>input := ''   ''\<rparr>) = None \<and>
   handleSubmit 5000 5000 (chat_init\<lparr>input := ''What is the revenue?'', loading := True\<rparr>) =
     None"
proof -
  let ?st = "chat_init\<lparr>documents :=
      [\<lparr>document_id = ''doc-123'', filename_doc = ''report.pdf''\<rparr>],
      selectedDocument := ''doc-123''\<rparr>"
  let ?xs = "[\<lparr>question = ''What is the revenue?'', submitted_now = 1000, submitted_ts = 1000,
       settled = Fulfilled (Some \<lparr>answer = Some ''42'', sources_resp = None,
         confidence_resp = Num 0.875\<rparr>),
       settled_now = 2000, settled_ts = 2000\<rparr>,
      \<lparr>question = ''  And the costs? '', submitted_now = 3000, submitted_ts = 3000,
       settled = Fulfilled (Some \<lparr>answer = Some ''17'', sources_resp = Some [],
         confidence_resp = NumUndefined\<rparr>),
       settled_now = 4000, settled_ts = 4000\<rparr>]"
  let ?rs = "[\<lparr>answer = Some ''42'', sources_resp = None, confidence_resp = Num 0.875\<rparr>,
      \<lparr>answer = Some ''17'', sources_resp = Some [], confidence_resp = NumUndefined\<rparr>]"
  have h: "list_all2 (\<lambda>x r. trim (question x) \<noteq> [] \<and> settled x = Fulfilled (Some r)) ?xs ?rs"
    by (simp add: trim_question trim_padded)
  have l: "\<not> loading ?st"
    by (simp add: chat_init_def)
  have b: "trim ''   '' = []"
    by (simp add: trim_def is_js_space_def)
  show ?thesis
    using submissions_alternate [OF h l, of "chat_init\<lparr>input := ''   ''\<rparr>" 5000 5000]
      submissions_alternate [OF h l,
        of "chat_init\<lparr>input := ''What is the revenue?'', loading := True\<rparr>" 5000 5000]
    by (simp add: trim_question trim_padded b numeral_2_eq_2 chat_init_def)
qed

section \<open>Rendering a source\<close>

text \<open>
  Claim C8. A source is rendered as its file name, the text " (similarity: ", the binary64
  product of the score and 100 in fixed notation with exactly one digit after the point,
  and "%)"; the number shown is the multiple of one tenth nearest to that product. This
  holds whenever the product is below \<open>10^21\<close> in absolute value, as it is for every
  score from 0 to 1. The source with file name "report.pdf" and score 0.867 is rendered
  as "report.pdf (similarity: 86.7%)".
\<close>

theorem formatSource_one_decimal:
  fixes s :: source
  defines "y \<equiv> binary64 (similarity_score s * 100)"
  defines "n \<equiv> nat \<lfloor>\<bar>y\<bar> * 10 + 1 / 2\<rfloor>"
  shows "(\<bar>y\<bar> < 10 ^ 21 \<longrightarrow>
            formatSource s =
              Some (filename s @ '' (similarity: '' @ (if y < 0 then ''-'' else []) @
                    digits (n div 10) @ ''.'' @ digits (n mod 10) @ ''%)'') \<and>
            length (digits (n mod 10)) = 1) \<and>
         (0 \<le> similarity_score s \<and> similarity_score s \<le> 1 \<longrightarrow> 0 \<le> y \<and> y < 10 ^ 21) \<and>
         formatSource \<lparr>filename = ''report.pdf'', similarity_score = binary64 0.867\<rparr> =
           Some ''report.pdf (similarity: 86.7%)''"
proof -
  have len: "length (digits (n mod 10)) = 1"
    by (simp add: digits_less_10)
  have fmt: "formatSource s =
      map_option (\<lambda>pct. filename s @ '' (similarity: '' @ pct @ ''%)'') (toFixed 1 y)"
    by (simp add: formatSource_def y_def)
  have general: "formatSource s =
      Some (filename s @ '' (similarity: '' @ (if y < 0 then ''-'' else []) @
            digits (n div 10) @ ''.'' @ digits (n mod 10) @ ''%)'')"
    if small: "\<bar>y\<bar> < 10 ^ 21"
  proof (cases "y < 0")
    case True
    with small have "- (10 ^ 21) < y" by simp
    moreover have "nat \<lfloor>- y * 10 + 1 / 2\<rfloor> = n"
      using True by (simp add: n_def)
    ultimately have "toFixed 1 y = Some (''-'' @ digits (n div 10) @ ''.'' @ digits (n mod 10))"
      using toFixed_1_neg [of y] True by simp
    with True show ?thesis by (simp add: fmt)
  next
    case False
    with small have "0 \<le> y" "y < 10 ^ 21" by simp_all
    moreover have "nat \<lfloor>y * 10 + 1 / 2\<rfloor> = n"
      using False by (simp add: n_def)
    ultimately have "toFixed 1 y = Some (digits (n div 10) @ ''.'' @ digits (n mod 10))"
      using toFixed_1 [of y] by simp
    with False show ?thesis by (simp add: fmt)
  qed
  have range: "0 \<le> y \<and> y < 10 ^ 21"
    if "0 \<le> similarity_score s \<and> similarity_score s \<le> 1"
    unfolding y_def using that by (intro conjI binary64_percent) simp_all
  have "formatSource \<lparr>filename = ''report.pdf'', similarity_score = binary64 0.867\<rparr> =
      Some ''report.pdf (similarity: 86.7%)''"
    by (rule formatSource_report)
  with general range len show ?thesis by blast
qed

theorem formatSource_one_decimal_witness:
  "\<bar>binary64 (binary64 0.0015 * 100)\<bar> < 10 ^ 21 \<and>
   formatSource \<lparr>filename = ''notes.txt'', similarity_score = binary64 0.0015\<rparr> =
     Some ''notes.txt (similarity: 0.1%)'' \<and>
   0 \<le> binary64 0.0015 \<and> binary64 0.0015 \<le> 1"
proof -
  have y: "binary64 (binary64 0.0015 * 100) = 5404319552844595 / 36028797018963968"
    by (simp only: binary64_0_0015 binary64_0_15)
  have f: "\<lfloor>36028797018963967 / 18014398509481984 :: rat\<rfloor> = 1"
    by (rule floor_unique) simp_all
  have r: "0 \<le> binary64 0.0015 \<and> binary64 0.0015 \<le> 1"
    unfolding binary64_0_0015 by simp
  show ?thesis
    using formatSource_one_decimal
      [of "\<lparr>filename = ''notes.txt'', similarity_score = binary64 0.0015\<rparr>"] r
    unfolding source.select_convs y
    by (simp add: f digits_less_10)
qed

section \<open>Message ids\<close>

text \<open>
  Claim C9, as the code has it. The log only grows at its end. The id of a user message is
  the clock reading at its submission and the id of a bot message is the reading when the
  query settled plus one; so the ids of the log are strictly increasing, and hence unique,
  whenever each submission reads a value above every id given so far and the clock does
  not go back between a submission and its reply.
\<close>

theorem ids_increase:
  assumes "clock_advances t xs"
  shows "sorted_wrt (<) (map id_msg (messages (run_exchanges chat_init xs))) \<and>
         distinct (map id_msg (messages (run_exchanges chat_init xs))) \<and>
         prefix (messages st) (messages (run_exchanges st ys))"
proof -
  have "sorted_wrt (<) (map id_msg (messages (run_exchanges chat_init xs)))"
    by (rule run_exchanges_ids [OF _ _ assms]) (simp_all add: chat_init_def)
  then show ?thesis
    by (simp add: run_exchanges_prefix strict_sorted_iff)
qed

theorem ids_increase_witness:
  "clock_advances 0
     [\<lparr>question = ''What is the revenue?'', submitted_now = 1000, submitted_ts = 1000,
       settled = Fulfilled (Some \<lparr>answer = Some ''42'', sources_resp = None, confidence_resp = Num 0.875\<rparr>),
       settled_now = 1000, settled_ts = 1000\<rparr>,
      \<lparr>question = ''What is the revenue?'', submitted_now = 1002, submitted_ts = 1002,
       settled = Rejected, settled_now = 1002, settled_ts = 1002\<rparr>] \<and>
   sorted_wrt (<) (map id_msg (messages (run_exchanges chat_init
     [\<lparr>question = ''What is the revenue?'', submitted_now = 1000, submitted_ts = 1000,
       settled = Fulfilled (Some \<lparr>answer = Some ''42'', sources_resp = None, confidence_resp = Num 0.875\<rparr>),
       settled_now = 1000, settled_ts = 1000\<rparr>,
      \<lparr>question = ''What is the revenue?'', submitted_now = 1002, submitted_ts = 1002,
       settled = Rejected, settled_now = 1002, settled_ts = 1002\<rparr>]))) \<and>
   map id_msg (messages (run_exchanges chat_init
     [\<lparr>question = ''What is the revenue?'', submitted_now = 1000, submitted_ts = 1000,
       settled = Fulfilled (Some \<lparr>answer = Some ''42'', sources_resp = None, confidence_resp = Num 0.875\<rparr>),
       settled_now = 1000, settled_ts = 1000\<rparr>,
      \<lparr>question = ''What is the revenue?'', submitted_now = 1002, submitted_ts = 1002,
       settled = Rejected, settled_now = 1002, settled_ts = 1002\<rparr>])) =
     [1000, 1001, 1002, 1003]"
proof -
  let ?xs = "[\<lparr>question = ''What is the revenue?'', submitted_now = 1000, submitted_ts = 1000,
       settled = Fulfilled (Some \<lparr>answer = Some ''42'', sources_resp = None, confidence_resp = Num 0.875\<rparr>),
       settled_now = 1000, settled_ts = 1000\<rparr>,
      \<lparr>question = ''What is the revenue?'', submitted_now = 1002, submitted_ts = 1002,
       settled = Rejected, settled_now = 1002, settled_ts = 1002\<rparr>]"
  have c: "clock_advances 0 ?xs" by simp
  have m: "map id_msg (messages (run_exchanges chat_init ?xs)) = [1000, 1001, 1002, 1003]"
    by (simp add: run_exchanges_def submit_exchange_def handleSubmit_def
        handleSubmit_settled_def chat_init_def trim_question Let_def)
  from ids_increase [OF c] c m show ?thesis by simp
qed

text \<open>
  The claim as written holds for no clock in particular. When a reply arrives in the
  millisecond of its submission and the next question is submitted one millisecond later,
  the reply and the next question get the same id.
\<close>

theorem ids_increase_counterexample:
  "map id_msg (messages (run_exchanges chat_init
     [\<lparr>question = ''What is the revenue?'', submitted_now = 1000, submitted_ts = 1000,
       settled = Fulfilled (Some \<lparr>answer = Some ''42'', sources_resp = None, confidence_resp = Num 0.875\<rparr>),
       settled_now = 1000, settled_ts = 1000\<rparr>,
      \<lparr>question = ''What is the revenue?'', submitted_now = 1001, submitted_ts = 1001,
       settled = Rejected, settled_now = 1001, settled_ts = 1001\<rparr>])) =
     [1000, 1001, 1001, 1002]"
  by (simp add: run_exchanges_def submit_exchange_def handleSubmit_def handleSubmit_settled_def
      chat_init_def trim_question Let_def)

section \<open>The document id of a query request\<close>

text \<open>
  Claim C10. The request body has no \<^verbatim>\<open>document_id\<close> key when the scope argument is
  \<^verbatim>\<open>null\<close>, \<^verbatim>\<open>undefined\<close> or the empty string, and these three give the same body; it
  has the key, with the id, when the argument is a non-empty string. A submission sends
  the key exactly when a non-empty document id is selected.
\<close>

theorem queryDocuments_document_id:
  "queryDocuments q h DocNull =
     \<lparr>query = q, conversation_history = h, document_id_req = None\<rparr> \<and>
   queryDocuments q h DocUndefined = queryDocuments q h DocNull \<and>
   queryDocuments q h (DocId []) = queryDocuments q h DocNull \<and>
   (s \<noteq> [] \<longrightarrow> queryDocuments q h (DocId s) =
      \<lparr>query = q, conversation_history = h, document_id_req = Some s\<rparr>) \<and>
   (handleSubmit now ts st = Some (st', req) \<longrightarrow>
      document_id_req req =
        (if selectedDocument st = [] then None else Some (selectedDocument st)))"
proof -
  have "document_id_req req =
      (if selectedDocument st = [] then None else Some (selectedDocument st))"
    if "handleSubmit now ts st = Some (st', req)"
    using handleSubmit_Some(4) [OF that]
    by (simp add: queryDocuments_def truthy_doc_def)
  then show ?thesis
    by (simp add: queryDocuments_def truthy_doc_def)
qed

theorem queryDocuments_document_id_witness:
  "queryDocuments ''What is the revenue?'' [] (DocId ''doc-123'') =
     \<lparr>query = ''What is the revenue?'', conversation_history = [],
      document_id_req = Some ''doc-123''\<rparr> \<and>
   queryDocuments ''What is the revenue?'' [] (DocId []) =
     \<lparr>query = ''What is the revenue?'', conversation_history = [], document_id_req = None\<rparr> \<and>
   handleSubmit 1000 1000
     (chat_init\<lparr>input := ''What is the revenue?'', selectedDocument := ''doc-123''\<rparr>) =
     Some (chat_init\<lparr>messages := [\<lparr>id_msg = 1000, type_msg = ''user'',
              content = Some ''What is the revenue?'', sources = None, confidence = NumUndefined,
              timestamp = 1000\<rparr>], input := [], loading := True,
              selectedDocument := ''doc-123''\<rparr>,
           \<lparr>query = ''What is the revenue?'', conversation_history = [],
            document_id_req = Some ''doc-123''\<rparr>)"
  using queryDocuments_document_id [of "''What is the revenue?''" "[]" "''doc-123''"
      1000 1000 "chat_init\<lparr>input := ''What is the revenue?'', selectedDocument := ''doc-123''\<rparr>"]
    handleSubmit_scoped
  by simp

end
